theory Spec2Isabelle
  imports Main "HOL-Library.Word"
begin

unbundle bit_operations_syntax

section \<open>ADS1115 driver: machine types and constants\<close>

text \<open>
  The kernel module (\<open>src/unnamed/part_000\<close>) works on \<open>u16\<close>, \<open>s16\<close> and \<open>int\<close>.
  A w-bit C integer is a \<open>w word\<close>; a signed one is read with \<open>sint\<close>. A conversion
  to a narrower type keeps the low bits (\<open>ucast\<close>), as gcc and clang do for the kernel.
  The \<open>long\<close> that the ioctl handler returns only ever holds small values and is an
  \<open>int\<close>. Logging (\<open>printk\<close>, \<open>dev_err\<close>) has no effect on any value and is left out.
\<close>

type_synonym u8 = "8 word"
type_synonym u16 = "16 word"
type_synonym s16 = "16 word"
type_synonym s32 = "32 word"
type_synonym u32 = "32 word"

text \<open>Error numbers of \<open>errno-base.h\<close> and \<open>errno.h\<close> (asm-generic values).\<close>

definition EIO :: int where "EIO = 5"
definition ENXIO :: int where "ENXIO = 6"
definition EFAULT :: int where "EFAULT = 14"
definition EBUSY :: int where "EBUSY = 16"
definition ENODEV :: int where "ENODEV = 19"
definition EINVAL :: int where "EINVAL = 22"
definition ETIMEDOUT :: int where "ETIMEDOUT = 110"

text \<open>Register addresses and configuration bits, lines 14 to 39 of the module.\<close>

definition ADS1115_REG_POINTER_CONVERSION :: u8 where
  "ADS1115_REG_POINTER_CONVERSION = 0x00"
definition ADS1115_REG_POINTER_CONFIG :: u8 where
  "ADS1115_REG_POINTER_CONFIG = 0x01"

definition ADS1115_CONFIG_OS_SINGLE :: u16 where
  "ADS1115_CONFIG_OS_SINGLE = 0x8000"
definition ADS1115_CONFIG_MUX_OFFSET :: nat where
  "ADS1115_CONFIG_MUX_OFFSET = 12"
definition ADS1115_CONFIG_PGA_OFFSET :: nat where
  "ADS1115_CONFIG_PGA_OFFSET = 9"
definition ADS1115_CONFIG_MODE_SINGLE :: u16 where
  "ADS1115_CONFIG_MODE_SINGLE = 0x0100"
definition ADS1115_CONFIG_DR_OFFSET :: nat where
  "ADS1115_CONFIG_DR_OFFSET = 5"

definition ADS1115_MUX_AIN0_GND :: u16 where
  "ADS1115_MUX_AIN0_GND = push_bit ADS1115_CONFIG_MUX_OFFSET 0x04"
definition ADS1115_MUX_AIN1_GND :: u16 where
  "ADS1115_MUX_AIN1_GND = push_bit ADS1115_CONFIG_MUX_OFFSET 0x05"
definition ADS1115_MUX_AIN2_GND :: u16 where
  "ADS1115_MUX_AIN2_GND = push_bit ADS1115_CONFIG_MUX_OFFSET 0x06"
definition ADS1115_MUX_AIN3_GND :: u16 where
  "ADS1115_MUX_AIN3_GND = push_bit ADS1115_CONFIG_MUX_OFFSET 0x07"

definition ADS1115_PGA_4_096V :: u16 where
  "ADS1115_PGA_4_096V = push_bit ADS1115_CONFIG_PGA_OFFSET 0x01"
definition ADS1115_DR_128SPS :: u16 where
  "ADS1115_DR_128SPS = push_bit ADS1115_CONFIG_DR_OFFSET 0x04"

definition ADS1115_CONFIG_BASE :: u16 where
  "ADS1115_CONFIG_BASE =
     (ADS1115_CONFIG_OS_SINGLE OR ADS1115_PGA_4_096V OR ADS1115_CONFIG_MODE_SINGLE
      OR ADS1115_DR_128SPS OR 0x0003)"

text \<open>
  The ioctl command numbers. \<open>_IOR(type, nr, size)\<close> is the macro of the kernel's
  \<open>asm-generic/ioctl.h\<close>: direction \<open>_IOC_READ = 2\<close> in bits 30 and 31, the size of the
  argument in bits 16 to 29, the magic character in bits 8 to 15 and the number in
  bits 0 to 7. The magic character is \<open>'a' = 0x61\<close> and \<open>sizeof(s16) = 2\<close>.
\<close>

definition ioctl_IOR :: "u32 \<Rightarrow> u32 \<Rightarrow> u32 \<Rightarrow> u32" where
  "ioctl_IOR ty nr sz = (push_bit 30 2 OR push_bit 8 ty OR nr OR push_bit 16 sz)"

definition ADS1115_IOCTL_MAGIC :: u32 where
  "ADS1115_IOCTL_MAGIC = 0x61"

definition ADS1115_IOCTL_READ_AIN0 :: u32 where
  "ADS1115_IOCTL_READ_AIN0 = ioctl_IOR ADS1115_IOCTL_MAGIC 0 2"
definition ADS1115_IOCTL_READ_AIN1 :: u32 where
  "ADS1115_IOCTL_READ_AIN1 = ioctl_IOR ADS1115_IOCTL_MAGIC 1 2"
definition ADS1115_IOCTL_READ_AIN2 :: u32 where
  "ADS1115_IOCTL_READ_AIN2 = ioctl_IOR ADS1115_IOCTL_MAGIC 2 2"
definition ADS1115_IOCTL_READ_AIN3 :: u32 where
  "ADS1115_IOCTL_READ_AIN3 = ioctl_IOR ADS1115_IOCTL_MAGIC 3 2"

text \<open>
  \<open>swab16\<close> of \<open>linux/swab.h\<close>: the low byte moves up, the high byte moves down.
\<close>

definition swab16 :: "u16 \<Rightarrow> u16" where
  "swab16 x = (push_bit 8 (x AND 0x00ff) OR drop_bit 8 (x AND 0xff00))"

section \<open>The bus and the trace of a request\<close>

text \<open>
  The I2C core is outside the module. A bus peer answers each SMBus transaction with an
  \<open>s32\<close> (a negative error number, zero, or the word read) and moves to a next state.
  The model appends every transaction and every sleep to a trace, so that a theorem can
  say which operations a request performed and in which order.
\<close>

datatype bus_op =
  Write_word_data u8 u16
| Write_byte u8
| Read_word_data u8

datatype event = Bus bus_op | Msleep nat

type_synonym 'b i2c_client = "'b \<Rightarrow> bus_op \<Rightarrow> s32 \<times> 'b"

record 'b sys =
  bus :: 'b
  trace :: "event list"

definition smbus_xfer :: "'b i2c_client \<Rightarrow> bus_op \<Rightarrow> 'b sys \<Rightarrow> s32 \<times> 'b sys" where
  "smbus_xfer client op s =
     (case client (bus s) op of
        (r, b') \<Rightarrow> (r, \<lparr>bus = b', trace = trace s @ [Bus op]\<rparr>))"

definition i2c_smbus_write_word_data ::
    "'b i2c_client \<Rightarrow> u8 \<Rightarrow> u16 \<Rightarrow> 'b sys \<Rightarrow> s32 \<times> 'b sys" where
  "i2c_smbus_write_word_data client command val s =
     smbus_xfer client (Write_word_data command val) s"

definition i2c_smbus_write_byte :: "'b i2c_client \<Rightarrow> u8 \<Rightarrow> 'b sys \<Rightarrow> s32 \<times> 'b sys" where
  "i2c_smbus_write_byte client val s = smbus_xfer client (Write_byte val) s"

definition i2c_smbus_read_word_data :: "'b i2c_client \<Rightarrow> u8 \<Rightarrow> 'b sys \<Rightarrow> s32 \<times> 'b sys" where
  "i2c_smbus_read_word_data client command s = smbus_xfer client (Read_word_data command) s"

definition msleep :: "nat \<Rightarrow> 'b sys \<Rightarrow> 'b sys" where
  "msleep ms s = s\<lparr>trace := trace s @ [Msleep ms]\<rparr>"

section \<open>The conversion engine\<close>

text \<open>
  \<open>ads1115_read_single_channel\<close>, lines 55 to 89. \<open>ret\<close> is an \<open>int\<close> and is narrowed
  to \<open>s16\<close> by \<open>return ret\<close>. \<open>raw_val\<close> is an \<open>s16\<close>: the \<open>s32\<close> that
  \<open>i2c_smbus_read_word_data\<close> returns is narrowed by the assignment, before the
  test \<open>raw_val < 0\<close>. A null client is \<open>None\<close>.
\<close>

definition ads1115_read_single_channel ::
    "'b i2c_client option \<Rightarrow> u16 \<Rightarrow> 'b sys \<Rightarrow> s16 \<times> 'b sys" where
  "ads1115_read_single_channel client mux_config s =
     (case client of
        None \<Rightarrow> (word_of_int (- EIO), s)
      | Some c \<Rightarrow>
          (let config_val = ADS1115_CONFIG_BASE OR mux_config in
           case i2c_smbus_write_word_data c ADS1115_REG_POINTER_CONFIG (swab16 config_val) s of
             (ret, s1) \<Rightarrow>
               if sint ret < 0 then (ucast ret, s1)
               else
                 (let s2 = msleep 15 s1 in
                  case i2c_smbus_write_byte c ADS1115_REG_POINTER_CONVERSION s2 of
                    (ret, s3) \<Rightarrow>
                      if sint ret < 0 then (ucast ret, s3)
                      else
                        (case i2c_smbus_read_word_data c ADS1115_REG_POINTER_CONVERSION s3 of
                           (r, s4) \<Rightarrow>
                             (let raw_val = (ucast r :: s16) in
                              if sint raw_val < 0 then (raw_val, s4)
                              else (swab16 raw_val, s4))))))"

section \<open>The ioctl handler\<close>

text \<open>
  \<open>ads1115_ioctl\<close>, lines 92 to 131. The global \<open>ads1115_client\<close> is the first
  argument. \<open>copy_to_user\<close> returns the number of bytes it could not copy: the
  argument \<open>arg_ok\<close> says whether the caller's pointer is writable. The result is the
  \<open>long\<close> returned, the sample stored through the caller's pointer (if any), and the
  state of the bus with its trace.
\<close>

text \<open>
  \<open>read_error_heuristic\<close> is the condition of line 120 and \<open>ioctl_finish\<close> is
  the code after the \<open>switch\<close> (lines 119 to 130), which every \<open>case\<close> reaches with
  the value that the conversion engine returned in \<open>data\<close>.
\<close>

definition copy_to_user :: "bool \<Rightarrow> s16 \<Rightarrow> nat \<times> s16 option" where
  "copy_to_user arg_ok data = (if arg_ok then (0, Some data) else (2, None))"

definition read_error_heuristic :: "s16 \<Rightarrow> bool" where
  "read_error_heuristic data \<longleftrightarrow>
     sint data < - 1000 \<and>
     (sint data = - EIO \<or> sint data = - ETIMEDOUT \<or> sint data = - ENXIO \<or> sint data = - EBUSY)"

definition ioctl_finish :: "bool \<Rightarrow> s16 \<times> 'b sys \<Rightarrow> int \<times> s16 option \<times> 'b sys" where
  "ioctl_finish arg_ok r =
     (case r of
        (data, s') \<Rightarrow>
          if read_error_heuristic data then (sint data, None, s')
          else
            (case copy_to_user arg_ok data of
               (left, written) \<Rightarrow>
                 if left \<noteq> 0 then (- EFAULT, None, s') else (0, written, s')))"

definition ads1115_ioctl ::
    "'b i2c_client option \<Rightarrow> u32 \<Rightarrow> bool \<Rightarrow> 'b sys \<Rightarrow> int \<times> s16 option \<times> 'b sys" where
  "ads1115_ioctl ads1115_client cmd arg_ok s =
     (if ads1115_client = None then (- ENODEV, None, s)
      else if cmd = ADS1115_IOCTL_READ_AIN0 then
        ioctl_finish arg_ok (ads1115_read_single_channel ads1115_client ADS1115_MUX_AIN0_GND s)
      else if cmd = ADS1115_IOCTL_READ_AIN1 then
        ioctl_finish arg_ok (ads1115_read_single_channel ads1115_client ADS1115_MUX_AIN1_GND s)
      else if cmd = ADS1115_IOCTL_READ_AIN2 then
        ioctl_finish arg_ok (ads1115_read_single_channel ads1115_client ADS1115_MUX_AIN2_GND s)
      else if cmd = ADS1115_IOCTL_READ_AIN3 then
        ioctl_finish arg_ok (ads1115_read_single_channel ads1115_client ADS1115_MUX_AIN3_GND s)
      else (- EINVAL, None, s))"

section \<open>The command-line demo\<close>

text \<open>
  \<open>demo_ads1115.c\<close>. The program talks to the kernel through \<open>open\<close>, \<open>ioctl\<close>,
  \<open>perror\<close>, \<open>printf\<close> and \<open>close\<close>; the model records these calls, in order, as
  events. The environment says what \<open>open\<close> returns and what the n-th \<open>ioctl\<close> call
  returns: a failing call returns \<open>-1\<close> and sets \<open>errno\<close>, a successful one may store a
  \<open>short\<close> through the pointer. The library calls \<open>perror\<close>, \<open>printf\<close> and \<open>close\<close>
  may each change \<open>errno\<close>: the environment gives, for each of them, the value of \<open>errno\<close>
  after the call as a function of its value before. \<open>return errno\<close> reads \<open>errno\<close> as
  the last call left it. The value of \<open>main\<close> is the value it returns.

  The command numbers are those of the module: the demo defines them with
  \<open>_IOR(ADS1115_IOCTL_MAGIC, n, short)\<close>, and \<open>sizeof(short) = sizeof(s16) = 2\<close>.

  \<open>adc_to_vol\<close> computes in \<open>double\<close> and returns a \<open>float\<close>. Floating-point
  arithmetic is not evaluated here: the voltage is kept as the expression that the C
  code evaluates, with its literals as written.
\<close>

datatype cfloat =
  Of_int int
| Lit string
| Mul cfloat cfloat
| Div cfloat cfloat
| To_float cfloat

definition adc_to_vol :: "s16 \<Rightarrow> cfloat" where
  "adc_to_vol adc_value =
     To_float (Div (Mul (Of_int (sint adc_value)) (Lit ''4.096'')) (Lit ''32768.0''))"

datatype open_result = Open_error int | Open_ok int
datatype ioctl_result = Ioctl_error int | Ioctl_ok "s16 option"

record env =
  open_res :: open_result
  ioctl_res :: "nat \<Rightarrow> ioctl_result"
  perror_errno :: "int \<Rightarrow> int"
  printf_errno :: "int \<Rightarrow> int"
  close_errno :: "int \<Rightarrow> int"

datatype uevent =
  Open string
| Ioctl int u32
| Perror string
| Printf string int cfloat
| Close int

record proc =
  u_errno :: int
  u_data :: s16
  u_ncalls :: nat
  u_events :: "uevent list"

definition DEVICE_PATH :: string where
  "DEVICE_PATH = ''/dev/ads1115''"

text \<open>
  \<open>read_and_print\<close> is the block that \<open>main\<close> repeats for each channel (lines 33 to
  39, 41 to 47, 49 to 55 and 57 to 63): the \<open>ioctl\<close>, then either \<open>perror\<close>,
  \<open>close\<close> and \<open>return errno\<close>, or the \<open>printf\<close>.
\<close>

definition read_and_print ::
    "env \<Rightarrow> int \<Rightarrow> u32 \<Rightarrow> string \<Rightarrow> string \<Rightarrow> proc \<Rightarrow> (int \<times> uevent list) + proc" where
  "read_and_print e fd cmd msg fmt p =
     (case ioctl_res e (u_ncalls p) of
        Ioctl_error err \<Rightarrow>
          (let p1 = p\<lparr>u_errno := err, u_ncalls := u_ncalls p + 1,
                        u_events := u_events p @ [Ioctl fd cmd]\<rparr>;
               p2 = p1\<lparr>u_errno := perror_errno e (u_errno p1),
                         u_events := u_events p1 @ [Perror msg]\<rparr>;
               p3 = p2\<lparr>u_errno := close_errno e (u_errno p2),
                         u_events := u_events p2 @ [Close fd]\<rparr>
           in Inl (u_errno p3, u_events p3))
      | Ioctl_ok stored \<Rightarrow>
          (let p1 = p\<lparr>u_data := (case stored of None \<Rightarrow> u_data p | Some v \<Rightarrow> v),
                        u_ncalls := u_ncalls p + 1,
                        u_events := u_events p @ [Ioctl fd cmd]\<rparr>
           in Inr (p1\<lparr>u_errno := printf_errno e (u_errno p1),
                      u_events := u_events p1 @
                        [Printf fmt (sint (u_data p1)) (adc_to_vol (u_data p1))]\<rparr>)))"

definition main :: "env \<Rightarrow> int \<Rightarrow> s16 \<Rightarrow> int \<times> uevent list" where
  "main e errno0 data0 =
     (let p = \<lparr>u_errno = errno0, u_data = data0, u_ncalls = 0, u_events = [Open DEVICE_PATH]\<rparr> in
      case open_res e of
        Open_error err \<Rightarrow>
          (let p1 = p\<lparr>u_errno := err\<rparr>;
               p2 = p1\<lparr>u_errno := perror_errno e (u_errno p1),
                         u_events := u_events p1 @ [Perror ''Failed to open the device'']\<rparr>
           in (u_errno p2, u_events p2))
      | Open_ok fd \<Rightarrow>
          (case read_and_print e fd ADS1115_IOCTL_READ_AIN0 ''Failed to read AIN0 data''
                  (''AIN0: ADC=%d, Voltage=%.3f V'' @ [CHR 0x0A]) p of
             Inl r \<Rightarrow> r
           | Inr p0 \<Rightarrow>
          (case read_and_print e fd ADS1115_IOCTL_READ_AIN1 ''Failed to read AIN1 data''
                  (''AIN1: ADC=%d, Voltage=%.3f V'' @ [CHR 0x0A]) p0 of
             Inl r \<Rightarrow> r
           | Inr p1 \<Rightarrow>
          (case read_and_print e fd ADS1115_IOCTL_READ_AIN2 ''Failed to read AIN2 data''
                  (''AIN2: ADC=%d, Voltage=%.3f V'' @ [CHR 0x0A]) p1 of
             Inl r \<Rightarrow> r
           | Inr p2 \<Rightarrow>
          (case read_and_print e fd ADS1115_IOCTL_READ_AIN3 ''Failed to read AIN3 data''
                  (''AIN3: ADC=%d, Voltage=%.3f V'' @ [CHR 0x0A]) p2 of
             Inl r \<Rightarrow> r
           | Inr p3 \<Rightarrow> (0, u_events p3 @ [Close fd]))))))"

text \<open>
  What the demo is expected to do for channel \<open>i\<close>: the events of a channel that was
  read and printed, and the events of a channel whose read failed.
\<close>

definition channel_cmds :: "u32 list" where
  "channel_cmds = [ADS1115_IOCTL_READ_AIN0, ADS1115_IOCTL_READ_AIN1,
                   ADS1115_IOCTL_READ_AIN2, ADS1115_IOCTL_READ_AIN3]"

definition channel_labels :: "string list" where
  "channel_labels = [''AIN0'', ''AIN1'', ''AIN2'', ''AIN3'']"

definition channel_ok :: "int \<Rightarrow> nat \<Rightarrow> s16 \<Rightarrow> uevent list" where
  "channel_ok fd i d =
     [Ioctl fd (channel_cmds ! i),
      Printf (channel_labels ! i @ '': ADC=%d, Voltage=%.3f V'' @ [CHR 0x0A]) (sint d)
        (To_float (Div (Mul (Of_int (sint d)) (Lit ''4.096'')) (Lit ''32768.0'')))]"

definition channel_failed :: "int \<Rightarrow> nat \<Rightarrow> uevent list" where
  "channel_failed fd i =
     [Ioctl fd (channel_cmds ! i),
      Perror (''Failed to read '' @ channel_labels ! i @ '' data''),
      Close fd]"

section \<open>Concrete bus peers and environments\<close>

text \<open>
  \<open>cfg_fail_client\<close> fails every word write with \<open>-EIO\<close> and lets everything else
  succeed; \<open>word_client w\<close> lets every write succeed and answers every word read with
  \<open>w\<close>. \<open>idle\<close> is a bus on which nothing has happened yet. \<open>env_fail_at k\<close> is an
  environment of the demo in which the device opens as descriptor 3 and the k-th
  \<open>ioctl\<close> call (counted from 0) fails with \<open>EIO\<close>, the others storing \<open>1000 * i\<close>;
  \<open>perror\<close> leaves \<open>errno\<close> at \<open>EINVAL\<close>, as the C library does when it cannot reopen
  the error stream, and \<open>printf\<close> and \<open>close\<close> leave \<open>errno\<close> as it was.
\<close>

definition cfg_fail_client :: "unit i2c_client" where
  "cfg_fail_client b op =
     (case op of Write_word_data reg v \<Rightarrow> (word_of_int (- EIO), b) | _ \<Rightarrow> (0, b))"

definition word_client :: "s32 \<Rightarrow> unit i2c_client" where
  "word_client w b op = (case op of Read_word_data reg \<Rightarrow> (w, b) | _ \<Rightarrow> (0, b))"

definition idle :: "unit sys" where
  "idle = \<lparr>bus = (), trace = []\<rparr>"

definition env_fail_at :: "nat \<Rightarrow> env" where
  "env_fail_at k =
     \<lparr>open_res = Open_ok 3,
      ioctl_res = (\<lambda>i. if i = k then Ioctl_error EIO else Ioctl_ok (Some (word_of_nat (1000 * i)))),
      perror_errno = (\<lambda>x. EINVAL),
      printf_errno = (\<lambda>x. x),
      close_errno = (\<lambda>x. x)\<rparr>"

section \<open>Values of the constants, and the paths of the engine\<close>

lemmas bus_defs = i2c_smbus_write_word_data_def i2c_smbus_write_byte_def
  i2c_smbus_read_word_data_def smbus_xfer_def msleep_def

lemmas reg_defs = ADS1115_REG_POINTER_CONVERSION_def ADS1115_REG_POINTER_CONFIG_def

lemmas config_defs = ADS1115_CONFIG_BASE_def ADS1115_CONFIG_OS_SINGLE_def
  ADS1115_CONFIG_MUX_OFFSET_def ADS1115_CONFIG_PGA_OFFSET_def ADS1115_CONFIG_MODE_SINGLE_def
  ADS1115_CONFIG_DR_OFFSET_def ADS1115_PGA_4_096V_def ADS1115_DR_128SPS_def
  ADS1115_MUX_AIN0_GND_def ADS1115_MUX_AIN1_GND_def ADS1115_MUX_AIN2_GND_def
  ADS1115_MUX_AIN3_GND_def

lemmas errno_defs = EIO_def ENXIO_def EFAULT_def EBUSY_def ENODEV_def EINVAL_def ETIMEDOUT_def

lemma cmd_values:
  "ADS1115_IOCTL_READ_AIN0 = 0x80026100"
  "ADS1115_IOCTL_READ_AIN1 = 0x80026101"
  "ADS1115_IOCTL_READ_AIN2 = 0x80026102"
  "ADS1115_IOCTL_READ_AIN3 = 0x80026103"
  by (simp_all add: ADS1115_IOCTL_READ_AIN0_def ADS1115_IOCTL_READ_AIN1_def
      ADS1115_IOCTL_READ_AIN2_def ADS1115_IOCTL_READ_AIN3_def ioctl_IOR_def
      ADS1115_IOCTL_MAGIC_def)

lemma config_values:
  "ADS1115_CONFIG_BASE = 0x8383"
  "ADS1115_MUX_AIN0_GND = 0x4000"
  "ADS1115_MUX_AIN1_GND = 0x5000"
  "ADS1115_MUX_AIN2_GND = 0x6000"
  "ADS1115_MUX_AIN3_GND = 0x7000"
  by (simp_all add: config_defs)

lemma read_error_heuristic_never: "\<not> read_error_heuristic data"
  by (auto simp: read_error_heuristic_def errno_defs)

lemma ioctl_finish_eq:
  "ioctl_finish arg_ok (data, s') =
     (if arg_ok then (0, Some data, s') else (- EFAULT, None, s'))"
  by (simp add: ioctl_finish_def read_error_heuristic_never copy_to_user_def)

text \<open>
  The engine, unfolded along its three transactions: what it returns and what it leaves
  in the trace, for every answer of the bus peer.
\<close>

lemma engine_path:
  assumes "c (bus s) (Write_word_data ADS1115_REG_POINTER_CONFIG
              (swab16 (ADS1115_CONFIG_BASE OR mux))) = (r1, b1)"
  shows "ads1115_read_single_channel (Some c) mux s =
    (if sint r1 < 0 then (ucast r1, \<lparr>bus = b1, trace = trace s @ [Bus (Write_word_data ADS1115_REG_POINTER_CONFIG
              (swab16 (ADS1115_CONFIG_BASE OR mux)))]\<rparr>) else
     (case c b1 (Write_byte ADS1115_REG_POINTER_CONVERSION) of (r2, b2) \<Rightarrow>
       if sint r2 < 0 then (ucast r2, \<lparr>bus = b2, trace = trace s @ [Bus (Write_word_data ADS1115_REG_POINTER_CONFIG
              (swab16 (ADS1115_CONFIG_BASE OR mux))), Msleep 15, Bus (Write_byte ADS1115_REG_POINTER_CONVERSION)]\<rparr>)
       else (case c b2 (Read_word_data ADS1115_REG_POINTER_CONVERSION) of (r3, b3) \<Rightarrow>
          (if sint (ucast r3 :: s16) < 0 then ucast r3 else swab16 (ucast r3),
            \<lparr>bus = b3, trace = trace s @ [Bus (Write_word_data ADS1115_REG_POINTER_CONFIG
              (swab16 (ADS1115_CONFIG_BASE OR mux))), Msleep 15, Bus (Write_byte ADS1115_REG_POINTER_CONVERSION),
               Bus (Read_word_data ADS1115_REG_POINTER_CONVERSION)]\<rparr>))))"
  using assms
  by (simp add: ads1115_read_single_channel_def bus_defs Let_def split: prod.splits)

lemma ioctl_state:
  "snd (snd (ioctl_finish arg_ok r)) = snd r"
  by (cases r) (simp add: ioctl_finish_eq)

lemma engine_first_event:
  "take (Suc (length (trace s))) (trace (snd (ads1115_read_single_channel (Some c) mux s))) =
     trace s @ [Bus (Write_word_data ADS1115_REG_POINTER_CONFIG
                       (swab16 (ADS1115_CONFIG_BASE OR mux)))]"
proof -
  obtain r1 b1 where "c (bus s) (Write_word_data ADS1115_REG_POINTER_CONFIG
              (swab16 (ADS1115_CONFIG_BASE OR mux))) = (r1, b1)"
    by (cases "c (bus s) (Write_word_data ADS1115_REG_POINTER_CONFIG
              (swab16 (ADS1115_CONFIG_BASE OR mux)))")
  then show ?thesis
    by (simp add: engine_path split: prod.splits)
qed

lemma sw_vals: "swab16 0xC383 = 0x83C3" "swab16 0x8001 = 0x0180" "swab16 0xFFFF = 0xFFFF"
  "swab16 0x401F = 0x1F40"
  by (simp_all add: swab16_def)

section \<open>The byte-order transform\<close>

lemma bit_0x00ff: "bit (0x00ff :: u16) n \<longleftrightarrow> n < 8"
proof -
  have "(0x00ff :: u16) = mask 8"
    by (simp add: mask_eq_exp_minus_1)
  then show ?thesis
    by (simp only: bit_mask_iff) auto
qed

lemma bit_0xff00: "bit (0xff00 :: u16) n \<longleftrightarrow> 8 \<le> n \<and> n < 16"
proof -
  have "(0xff00 :: u16) = push_bit 8 (mask 8)"
    by (simp add: mask_eq_exp_minus_1 push_bit_eq_mult)
  then show ?thesis
    by (simp only: bit_push_bit_iff bit_mask_iff) (auto simp: bit_simps)
qed

lemma bit_swab16:
  "bit (swab16 x) n \<longleftrightarrow> (n < 8 \<and> bit x (8 + n)) \<or> (8 \<le> n \<and> n < 16 \<and> bit x (n - 8))"
  unfolding swab16_def
  apply (simp only: bit_or_iff bit_and_iff bit_push_bit_iff bit_drop_bit_eq
      bit_0x00ff bit_0xff00 o_def)
  apply (auto simp: add.commute dest: bit_imp_le_length)
  done

text \<open>
  C5. The byte swap is its own inverse: \<open>swab16\<close> is what the module applies both to
  the configuration word before writing it and to the word read from the conversion
  register, and applying it twice gives back every 16-bit value.
\<close>

theorem swab16_round_trip: "swab16 (swab16 x) = x"
  by (rule bit_word_eqI) (auto simp: bit_swab16)

section \<open>The configuration word\<close>

text \<open>
  C2. For every selector \<open>n\<close> in 0 to 3, the request \<open>_IOR('a', n, s16)\<close> on an attached
  client starts with the write, to the configuration register, of the byte-swapped word
  \<open>ADS1115_CONFIG_BASE OR ((4 + n) << 12)\<close>. The base word is the start bit \<open>0x8000\<close>,
  the gain code 1 at bit 9, the single-shot bit \<open>0x0100\<close>, the rate code 4 at bit 5 and
  the comparator bits \<open>0x0003\<close>. The mux field (mask \<open>0x7000\<close>) of the word is
  \<open>(4 + n) << 12\<close> and the bits outside it are the base word, whatever \<open>n\<close> is.
\<close>

theorem config_word_for_selector:
  assumes "n \<in> {0, 1, 2, 3 :: nat}"
  shows "take (Suc (length (trace s)))
           (trace (snd (snd (ads1115_ioctl (Some c)
              (ioctl_IOR ADS1115_IOCTL_MAGIC (of_nat n) 2) arg_ok s)))) =
         trace s @ [Bus (Write_word_data ADS1115_REG_POINTER_CONFIG
                      (swab16 (ADS1115_CONFIG_BASE OR push_bit 12 (4 + of_nat n))))]
     \<and> ADS1115_CONFIG_BASE = (0x8000 OR push_bit 9 1 OR 0x0100 OR push_bit 5 4 OR 0x0003)
     \<and> (ADS1115_CONFIG_BASE OR push_bit 12 (4 + of_nat n)) AND 0x7000 = push_bit 12 (4 + of_nat n)
     \<and> (ADS1115_CONFIG_BASE OR push_bit 12 (4 + of_nat n)) AND NOT 0x7000 = ADS1115_CONFIG_BASE"
proof -
  from assms consider "n = 0" | "n = 1" | "n = 2" | "n = 3" by auto
  then show ?thesis
  proof cases
    case 1
    have "ioctl_IOR ADS1115_IOCTL_MAGIC (of_nat n) 2 = ADS1115_IOCTL_READ_AIN0"
      by (simp add: 1 ADS1115_IOCTL_READ_AIN0_def)
    moreover have "push_bit 12 (4 + of_nat n) = ADS1115_MUX_AIN0_GND"
      by (simp add: 1 config_values)
    ultimately show ?thesis
      by (simp add: ads1115_ioctl_def ioctl_state engine_first_event) (simp add: config_values)
  next
    case 2
    have "ioctl_IOR ADS1115_IOCTL_MAGIC (of_nat n) 2 = ADS1115_IOCTL_READ_AIN1"
      by (simp add: 2 ADS1115_IOCTL_READ_AIN1_def)
    moreover have "push_bit 12 (4 + of_nat n) = ADS1115_MUX_AIN1_GND"
      by (simp add: 2 config_values)
    ultimately show ?thesis
      by (simp add: ads1115_ioctl_def ioctl_state engine_first_event) (simp add: config_values cmd_values)
  next
    case 3
    have "ioctl_IOR ADS1115_IOCTL_MAGIC (of_nat n) 2 = ADS1115_IOCTL_READ_AIN2"
      by (simp add: 3 ADS1115_IOCTL_READ_AIN2_def)
    moreover have "push_bit 12 (4 + of_nat n) = ADS1115_MUX_AIN2_GND"
      by (simp add: 3 config_values)
    ultimately show ?thesis
      by (simp add: ads1115_ioctl_def ioctl_state engine_first_event) (simp add: config_values cmd_values)
  next
    case 4
    have "ioctl_IOR ADS1115_IOCTL_MAGIC (of_nat n) 2 = ADS1115_IOCTL_READ_AIN3"
      by (simp add: 4 ADS1115_IOCTL_READ_AIN3_def)
    moreover have "push_bit 12 (4 + of_nat n) = ADS1115_MUX_AIN3_GND"
      by (simp add: 4 config_values)
    ultimately show ?thesis
      by (simp add: ads1115_ioctl_def ioctl_state engine_first_event) (simp add: config_values cmd_values)
  qed
qed

theorem config_word_for_selector_witness:
  "(2 :: nat) \<in> {0, 1, 2, 3}
   \<and> trace (snd (snd (ads1115_ioctl (Some cfg_fail_client)
              (ioctl_IOR ADS1115_IOCTL_MAGIC 2 2) True idle))) =
       [Bus (Write_word_data 1 (swab16 0xE383))]
   \<and> ADS1115_CONFIG_BASE = 0x8383"
proof -
  have h: "(2 :: nat) \<in> {0, 1, 2, 3}" by simp
  have t: "trace (snd (snd (ads1115_ioctl (Some cfg_fail_client)
              (ioctl_IOR ADS1115_IOCTL_MAGIC 2 2) True idle))) =
       [Bus (Write_word_data ADS1115_REG_POINTER_CONFIG 0x83E3)]"
   by (simp add: ads1115_ioctl_def ioctl_finish_eq engine_path [where ?r1.0 = "word_of_int (- EIO)" and ?b1.0 = "()"] cfg_fail_client_def idle_def config_values swab16_def errno_defs cmd_values ioctl_IOR_def ADS1115_IOCTL_MAGIC_def)
  show ?thesis
    using h t config_word_for_selector [OF h, of idle cfg_fail_client True]
    by (simp add: idle_def reg_defs swab16_def)
qed

section \<open>The conversion engine\<close>

text \<open>
  The order of the operations does not depend on the word read: whenever both writes
  return a non-negative status, the engine performs the configuration write, the sleep
  of 15 ms, the bare write of the conversion register's address and one word read, in
  this order and nothing else. The word is byte-swapped only when, narrowed to \<open>s16\<close>,
  it is not negative.
\<close>

lemma acquisition_trace_any_word:
  assumes "c (bus s) (Write_word_data ADS1115_REG_POINTER_CONFIG
              (swab16 (ADS1115_CONFIG_BASE OR mux))) = (r1, b1)" and "0 \<le> sint r1"
    and "c b1 (Write_byte ADS1115_REG_POINTER_CONVERSION) = (r2, b2)" and "0 \<le> sint r2"
    and "c b2 (Read_word_data ADS1115_REG_POINTER_CONVERSION) = (r3, b3)"
  shows "ads1115_read_single_channel (Some c) mux s =
     (if sint (ucast r3 :: s16) < 0 then ucast r3 else swab16 (ucast r3),
      \<lparr>bus = b3,
       trace = trace s @
         [Bus (Write_word_data ADS1115_REG_POINTER_CONFIG (swab16 (ADS1115_CONFIG_BASE OR mux))),
          Msleep 15,
          Bus (Write_byte ADS1115_REG_POINTER_CONVERSION),
          Bus (Read_word_data ADS1115_REG_POINTER_CONVERSION)]\<rparr>)"
  using assms by (simp add: engine_path)

text \<open>
  C8, at a failing input. Every bus operation of the request for AIN0 succeeds and the
  conversion register yields the word \<open>0x8001\<close>. The request is served: the handler
  returns 0 and stores a sample. The four operations are performed in the order of the
  protocol, but the last step reads the word without decoding it: the sample stored is
  \<open>0x8001\<close>, not its byte swap \<open>0x0180\<close>.
\<close>

theorem successful_acquisition_skips_decode:
  "ads1115_ioctl (Some (word_client 0x8001)) ADS1115_IOCTL_READ_AIN0 True idle =
     (0, Some 0x8001,
      \<lparr>bus = (),
       trace = [Bus (Write_word_data ADS1115_REG_POINTER_CONFIG 0x83C3),
                Msleep 15,
                Bus (Write_byte ADS1115_REG_POINTER_CONVERSION),
                Bus (Read_word_data ADS1115_REG_POINTER_CONVERSION)]\<rparr>)
   \<and> swab16 0x8001 = 0x0180
   \<and> (0x8001 :: s16) \<noteq> 0x0180"
  by (simp add: ads1115_ioctl_def ioctl_finish_eq
      engine_path [where ?r1.0 = 0 and ?b1.0 = "()"] word_client_def idle_def config_values
      sw_vals)

text \<open>
  C4, at a failing input. The bus read succeeds and yields the word \<open>0x8001\<close>. The
  module stores it in the \<open>s16\<close> \<open>raw_val\<close>, finds it negative, takes it for a read error
  and returns it as it is: \<open>0x8001\<close>, not its byte swap \<open>0x0180\<close>.
\<close>

theorem high_bit_word_not_swapped:
  "fst (ads1115_read_single_channel (Some (word_client 0x8001)) ADS1115_MUX_AIN0_GND idle) = 0x8001
   \<and> swab16 0x8001 = 0x0180
   \<and> fst (ads1115_read_single_channel (Some (word_client 0x8001)) ADS1115_MUX_AIN0_GND idle)
        \<noteq> swab16 0x8001"
  by (simp add: engine_path [where ?r1.0 = 0 and ?b1.0 = "()"] word_client_def idle_def sw_vals)

section \<open>The ioctl handler\<close>

text \<open>
  C7. With no client attached, every request returns \<open>-ENODEV\<close>, whatever the command
  and the pointer are, stores nothing and leaves the bus and its trace as they were: no
  bus operation is performed.
\<close>

theorem ioctl_no_client: "ads1115_ioctl None cmd arg_ok s = (- ENODEV, None, s)"
  by (simp add: ads1115_ioctl_def)

text \<open>
  C6. On an attached client, a request whose command is none of the four read commands
  (a channel selector outside 0 to 3) returns \<open>-EINVAL\<close>, stores nothing and leaves the
  bus and its trace as they were: the engine is not called and no bus operation is
  performed.
\<close>

theorem invalid_selector:
  assumes "cmd \<notin> {ADS1115_IOCTL_READ_AIN0, ADS1115_IOCTL_READ_AIN1,
                   ADS1115_IOCTL_READ_AIN2, ADS1115_IOCTL_READ_AIN3}"
  shows "ads1115_ioctl (Some c) cmd arg_ok s = (- EINVAL, None, s)"
  using assms by (simp add: ads1115_ioctl_def)

theorem invalid_selector_witness:
  "ioctl_IOR ADS1115_IOCTL_MAGIC 4 2 \<notin> {ADS1115_IOCTL_READ_AIN0, ADS1115_IOCTL_READ_AIN1,
                   ADS1115_IOCTL_READ_AIN2, ADS1115_IOCTL_READ_AIN3}
   \<and> ads1115_ioctl (Some (word_client 0)) (ioctl_IOR ADS1115_IOCTL_MAGIC 4 2) True idle =
        (- EINVAL, None, idle)"
proof -
  have h: "ioctl_IOR ADS1115_IOCTL_MAGIC 4 2 \<notin> {ADS1115_IOCTL_READ_AIN0, ADS1115_IOCTL_READ_AIN1,
                   ADS1115_IOCTL_READ_AIN2, ADS1115_IOCTL_READ_AIN3}"
    by (simp add: cmd_values ioctl_IOR_def ADS1115_IOCTL_MAGIC_def)
  show ?thesis
    using h invalid_selector [OF h, of "word_client 0" True idle] by simp
qed

text \<open>
  C10. Each of \<open>-EIO\<close>, \<open>-ETIMEDOUT\<close>, \<open>-ENXIO\<close> and \<open>-EBUSY\<close> is greater than
  \<open>-1000\<close>, so the condition of line 120 is false for every \<open>data\<close>. Hence, on an
  attached client and for each of the four read commands, the handler passes on whatever
  the engine returned: it stores that value through the caller's pointer and returns 0,
  or returns \<open>-EFAULT\<close> when the pointer is not writable.
\<close>

theorem ioctl_always_copies:
  assumes "(cmd, mux) \<in> {(ADS1115_IOCTL_READ_AIN0, ADS1115_MUX_AIN0_GND),
                           (ADS1115_IOCTL_READ_AIN1, ADS1115_MUX_AIN1_GND),
                           (ADS1115_IOCTL_READ_AIN2, ADS1115_MUX_AIN2_GND),
                           (ADS1115_IOCTL_READ_AIN3, ADS1115_MUX_AIN3_GND)}"
  shows "- 1000 < - EIO \<and> - 1000 < - ETIMEDOUT \<and> - 1000 < - ENXIO \<and> - 1000 < - EBUSY
     \<and> \<not> read_error_heuristic data
     \<and> ads1115_ioctl (Some c) cmd arg_ok s =
         (case ads1115_read_single_channel (Some c) mux s of
            (d, s') \<Rightarrow> if arg_ok then (0, Some d, s') else (- EFAULT, None, s'))"
proof -
  have "ads1115_ioctl (Some c) cmd arg_ok s =
          ioctl_finish arg_ok (ads1115_read_single_channel (Some c) mux s)"
    using assms by (auto simp: ads1115_ioctl_def cmd_values)
  then show ?thesis
    by (simp add: read_error_heuristic_never errno_defs ioctl_finish_eq split: prod.splits)
qed

theorem ioctl_always_copies_witness:
  "(ADS1115_IOCTL_READ_AIN0, ADS1115_MUX_AIN0_GND) \<in>
      {(ADS1115_IOCTL_READ_AIN0, ADS1115_MUX_AIN0_GND),
       (ADS1115_IOCTL_READ_AIN1, ADS1115_MUX_AIN1_GND),
       (ADS1115_IOCTL_READ_AIN2, ADS1115_MUX_AIN2_GND),
       (ADS1115_IOCTL_READ_AIN3, ADS1115_MUX_AIN3_GND)}
   \<and> \<not> read_error_heuristic (word_of_int (- EIO))
   \<and> ads1115_ioctl (Some cfg_fail_client) ADS1115_IOCTL_READ_AIN0 True idle =
       (0, Some (word_of_int (- EIO)),
        \<lparr>bus = (), trace = [Bus (Write_word_data 1 0x83C3)]\<rparr>)
   \<and> fst (ads1115_ioctl (Some cfg_fail_client) ADS1115_IOCTL_READ_AIN0 False idle) = - EFAULT"
proof -
  have h: "(ADS1115_IOCTL_READ_AIN0, ADS1115_MUX_AIN0_GND) \<in>
      {(ADS1115_IOCTL_READ_AIN0, ADS1115_MUX_AIN0_GND),
       (ADS1115_IOCTL_READ_AIN1, ADS1115_MUX_AIN1_GND),
       (ADS1115_IOCTL_READ_AIN2, ADS1115_MUX_AIN2_GND),
       (ADS1115_IOCTL_READ_AIN3, ADS1115_MUX_AIN3_GND)}" by simp
  have e: "ads1115_read_single_channel (Some cfg_fail_client) ADS1115_MUX_AIN0_GND idle =
     (word_of_int (- EIO), \<lparr>bus = (), trace = [Bus (Write_word_data 1 0x83C3)]\<rparr>)"
    by (simp add: engine_path [where ?r1.0 = "word_of_int (- EIO)" and ?b1.0 = "()"]
        cfg_fail_client_def idle_def config_values swab16_def errno_defs reg_defs)
  show ?thesis
    using h ioctl_always_copies [OF h, of "word_of_int (- EIO)" cfg_fail_client True idle]
      ioctl_always_copies [OF h, of "word_of_int (- EIO)" cfg_fail_client False idle]
    by (simp add: e)
qed

text \<open>
  C3. On an attached client, for each of the four read commands and a writable pointer:
  when every write succeeds and the conversion register yields a word \<open>w\<close>, the handler
  returns 0 and stores a sample, whatever \<open>w\<close> is, so a negative sample is never
  reported as an error. When \<open>w\<close> is \<open>0xFFFF\<close> the sample stored is \<open>-1\<close>.
\<close>

theorem all_ones_word_is_sample:
  assumes "cmd \<in> {ADS1115_IOCTL_READ_AIN0, ADS1115_IOCTL_READ_AIN1,
                   ADS1115_IOCTL_READ_AIN2, ADS1115_IOCTL_READ_AIN3}"
    and "\<And>b reg v. 0 \<le> sint (fst (c b (Write_word_data reg v)))"
    and "\<And>b v. 0 \<le> sint (fst (c b (Write_byte v)))"
    and "\<And>b. fst (c b (Read_word_data ADS1115_REG_POINTER_CONVERSION)) = ucast (w :: u16)"
  shows "fst (ads1115_ioctl (Some c) cmd True s) = 0
     \<and> fst (snd (ads1115_ioctl (Some c) cmd True s)) =
         Some (if sint w < 0 then w else swab16 w)
     \<and> (w = 0xFFFF \<longrightarrow>
          fst (snd (ads1115_ioctl (Some c) cmd True s)) = Some (- 1) \<and> sint (- 1 :: s16) = - 1)"
proof -
  have eng: "fst (ads1115_read_single_channel (Some c) mux s) =
               (if sint w < 0 then w else swab16 w)" for mux
  proof -
    obtain r1 b1 where 1: "c (bus s) (Write_word_data ADS1115_REG_POINTER_CONFIG
              (swab16 (ADS1115_CONFIG_BASE OR mux))) = (r1, b1)"
      by (cases "c (bus s) (Write_word_data ADS1115_REG_POINTER_CONFIG
              (swab16 (ADS1115_CONFIG_BASE OR mux)))")
    obtain r2 b2 where 2: "c b1 (Write_byte ADS1115_REG_POINTER_CONVERSION) = (r2, b2)"
      by (cases "c b1 (Write_byte ADS1115_REG_POINTER_CONVERSION)")
    obtain r3 b3 where 3: "c b2 (Read_word_data ADS1115_REG_POINTER_CONVERSION) = (r3, b3)"
      by (cases "c b2 (Read_word_data ADS1115_REG_POINTER_CONVERSION)")
    have "0 \<le> sint r1" using assms(2) [of "bus s" ADS1115_REG_POINTER_CONFIG
        "swab16 (ADS1115_CONFIG_BASE OR mux)"] 1 by simp
    moreover have "0 \<le> sint r2" using assms(3) [of b1 ADS1115_REG_POINTER_CONVERSION] 2 by simp
    moreover have "r3 = ucast w" using assms(4) [of b2] 3 by simp
    moreover have "(ucast (ucast w :: s32) :: s16) = w"
      by (rule ucast_up_ucast_id) (simp add: is_up)
    ultimately show ?thesis
      using 1 2 3 by (simp add: engine_path)
  qed
  have fin: "ads1115_ioctl (Some c) cmd True s =
    (0, Some (if sint w < 0 then w else swab16 w), snd (ads1115_read_single_channel (Some c) mux s))"
    if "ads1115_ioctl (Some c) cmd True s = ioctl_finish True (ads1115_read_single_channel (Some c) mux s)" for mux
    using that eng [of mux] by (cases "ads1115_read_single_channel (Some c) mux s") (simp add: ioctl_finish_eq)
  have "\<exists>mux. ads1115_ioctl (Some c) cmd True s = ioctl_finish True (ads1115_read_single_channel (Some c) mux s)"
    using assms(1) by (auto simp: ads1115_ioctl_def)
  then obtain mux where "ads1115_ioctl (Some c) cmd True s =
    (0, Some (if sint w < 0 then w else swab16 w), snd (ads1115_read_single_channel (Some c) mux s))"
    using fin by blast
  then show ?thesis
    by (simp add: sw_vals)
qed

theorem all_ones_word_is_sample_witness:
  "ads1115_ioctl (Some (word_client 0xFFFF)) ADS1115_IOCTL_READ_AIN3 True idle =
     (0, Some (- 1),
      \<lparr>bus = (), trace = [Bus (Write_word_data 1 0x83F3), Msleep 15, Bus (Write_byte 0), Bus (Read_word_data 0)]\<rparr>)
   \<and> fst (snd (ads1115_ioctl (Some (word_client 0xFFFF)) ADS1115_IOCTL_READ_AIN3 True idle)) = Some (- 1)"
proof -
  have a: "ADS1115_IOCTL_READ_AIN3 \<in> {ADS1115_IOCTL_READ_AIN0, ADS1115_IOCTL_READ_AIN1,
                   ADS1115_IOCTL_READ_AIN2, ADS1115_IOCTL_READ_AIN3}" by simp
  have b: "\<And>b reg v. 0 \<le> sint (fst (word_client 0xFFFF b (Write_word_data reg v)))"
    by (simp add: word_client_def)
  have c: "\<And>b v. 0 \<le> sint (fst (word_client 0xFFFF b (Write_byte v)))"
    by (simp add: word_client_def)
  have d: "\<And>b. fst (word_client 0xFFFF b (Read_word_data ADS1115_REG_POINTER_CONVERSION)) = ucast (0xFFFF :: u16)"
    by (simp add: word_client_def)
  have e: "ads1115_ioctl (Some (word_client 0xFFFF)) ADS1115_IOCTL_READ_AIN3 True idle =
     (0, Some (- 1),
      \<lparr>bus = (), trace = [Bus (Write_word_data 1 0x83F3), Msleep 15, Bus (Write_byte 0), Bus (Read_word_data 0)]\<rparr>)"
    by (simp add: ads1115_ioctl_def cmd_values ioctl_finish_eq engine_path [where ?r1.0 = 0 and ?b1.0 = "()"] word_client_def idle_def config_values swab16_def reg_defs)
  show ?thesis
    using e all_ones_word_is_sample [of ADS1115_IOCTL_READ_AIN3 "word_client 0xFFFF" "0xFFFF" idle, OF a b c d]
    by simp
qed

text \<open>
  C1, at a failing input. The configuration write fails with \<open>-EIO\<close>. The engine
  stops there: the trace holds the configuration write and nothing else. The handler
  does not return \<open>-EIO\<close>: it stores \<open>-EIO\<close> through the caller's pointer as if it were
  a sample, and returns 0.
\<close>

theorem config_write_failure_reported_as_sample:
  "ads1115_ioctl (Some cfg_fail_client) ADS1115_IOCTL_READ_AIN0 True idle =
     (0, Some (word_of_int (- EIO)),
      \<lparr>bus = (), trace = [Bus (Write_word_data ADS1115_REG_POINTER_CONFIG 0x83C3)]\<rparr>)"
  by (simp add: ads1115_ioctl_def ioctl_finish_eq engine_path [where ?r1.0 = "word_of_int (- EIO)" and ?b1.0 = "()"] cfg_fail_client_def idle_def config_values sw_vals errno_defs)

section \<open>The command-line demo, run\<close>

lemmas demo_defs = main_def read_and_print_def channel_cmds_def channel_labels_def
  channel_ok_def channel_failed_def adc_to_vol_def

lemma Suc_numerals: "Suc (Suc 0) = 2" "Suc (Suc (Suc 0)) = 3"
  by simp_all

lemma upt_small: "[0..<1] = [0]" "[0..<2] = [0, 1]" "[0..<3] = [0, 1, 2]" "[0..<4] = [0, 1, 2, 3]"
  by (simp_all add: upt_rec)

text \<open>
  C9. Once the device is open, let \<open>k\<close> be the number of channels read before the
  first failure (\<open>k = 4\<close> when no read fails). The demo issues the read commands in the
  order AIN0, AIN1, AIN2, AIN3 and, after each successful read, prints the label, the
  signed sample and the voltage \<open>sample * 4.096 / 32768.0\<close>. When all four reads succeed
  it closes the device and returns 0. When read \<open>k\<close> fails it reports the error with
  \<open>perror\<close>, closes the device and returns \<open>errno\<close> as \<open>perror\<close> and \<open>close\<close> left it,
  and it issues no further read. The value returned is not zero, since the failing call
  set \<open>errno\<close> to a non-zero error number and no library function sets \<open>errno\<close> to
  zero (ISO C, 7.5).
\<close>

theorem demo_sequential_short_circuit:
  assumes "open_res e = Open_ok fd"
    and "k \<le> 4"
    and "\<forall>i<k. ioctl_res e i = Ioctl_ok (Some (d i))"
    and "k < 4 \<longrightarrow> ioctl_res e k = Ioctl_error err \<and> err \<noteq> 0"
    and "\<forall>x. x \<noteq> 0 \<longrightarrow> perror_errno e x \<noteq> 0"
    and "\<forall>x. x \<noteq> 0 \<longrightarrow> close_errno e x \<noteq> 0"
  shows "main e errno0 data0 =
     (if k = 4
      then (0, Open DEVICE_PATH # concat (map (\<lambda>i. channel_ok fd i (d i)) [0..<4]) @ [Close fd])
      else (close_errno e (perror_errno e err),
            Open DEVICE_PATH # concat (map (\<lambda>i. channel_ok fd i (d i)) [0..<k]) @
              channel_failed fd k))
     \<and> (k < 4 \<longrightarrow> fst (main e errno0 data0) \<noteq> 0)"
proof -
  from \<open>k \<le> 4\<close> consider "k = 0" | "k = 1" | "k = 2" | "k = 3" | "k = 4" by arith
  then show ?thesis
  proof cases
    case 1
    with assms show ?thesis
      by (simp add: demo_defs)
  next
    case 2
    with assms show ?thesis
      by (simp add: demo_defs)
  next
    case 3
    with assms have "ioctl_res e 0 = Ioctl_ok (Some (d 0))" "ioctl_res e 1 = Ioctl_ok (Some (d 1))"
      by simp_all
    with 3 assms show ?thesis
      by (simp add: demo_defs upt_small Suc_numerals)
  next
    case 4
    with assms have "ioctl_res e 0 = Ioctl_ok (Some (d 0))" "ioctl_res e 1 = Ioctl_ok (Some (d 1))"
       "ioctl_res e 2 = Ioctl_ok (Some (d 2))" by simp_all
    with 4 assms show ?thesis
      by (simp add: demo_defs upt_small Suc_numerals)
  next
    case 5
    with assms have "ioctl_res e 0 = Ioctl_ok (Some (d 0))" "ioctl_res e 1 = Ioctl_ok (Some (d 1))"
       "ioctl_res e 2 = Ioctl_ok (Some (d 2))" "ioctl_res e 3 = Ioctl_ok (Some (d 3))" by simp_all
    with 5 assms show ?thesis
      by (simp add: demo_defs upt_small Suc_numerals)
  qed
qed

theorem demo_sequential_short_circuit_witness:
  "main (env_fail_at 1) 0 0 =
     (EINVAL, [Open ''/dev/ads1115'',
            Ioctl 3 ADS1115_IOCTL_READ_AIN0,
            Printf (''AIN0: ADC=%d, Voltage=%.3f V'' @ [CHR 0x0A]) 0
              (To_float (Div (Mul (Of_int 0) (Lit ''4.096'')) (Lit ''32768.0''))),
            Ioctl 3 ADS1115_IOCTL_READ_AIN1,
            Perror ''Failed to read AIN1 data'',
            Close 3])
   \<and> fst (main (env_fail_at 1) 0 0) \<noteq> 0
   \<and> main (env_fail_at 4) 0 0 =
     (0, [Open ''/dev/ads1115'',
          Ioctl 3 ADS1115_IOCTL_READ_AIN0,
          Printf (''AIN0: ADC=%d, Voltage=%.3f V'' @ [CHR 0x0A]) 0
            (To_float (Div (Mul (Of_int 0) (Lit ''4.096'')) (Lit ''32768.0''))),
          Ioctl 3 ADS1115_IOCTL_READ_AIN1,
          Printf (''AIN1: ADC=%d, Voltage=%.3f V'' @ [CHR 0x0A]) 1000
            (To_float (Div (Mul (Of_int 1000) (Lit ''4.096'')) (Lit ''32768.0''))),
          Ioctl 3 ADS1115_IOCTL_READ_AIN2,
          Printf (''AIN2: ADC=%d, Voltage=%.3f V'' @ [CHR 0x0A]) 2000
            (To_float (Div (Mul (Of_int 2000) (Lit ''4.096'')) (Lit ''32768.0''))),
          Ioctl 3 ADS1115_IOCTL_READ_AIN3,
          Printf (''AIN3: ADC=%d, Voltage=%.3f V'' @ [CHR 0x0A]) 3000
            (To_float (Div (Mul (Of_int 3000) (Lit ''4.096'')) (Lit ''32768.0''))),
          Close 3])"
proof -
  have o: "open_res (env_fail_at k) = Open_ok 3" for k
    by (simp add: env_fail_at_def)
  have a1: "(1::nat) \<le> 4" and a4: "(4::nat) \<le> 4" by simp_all
  have b1: "\<forall>i<1. ioctl_res (env_fail_at 1) i = Ioctl_ok (Some (word_of_nat (1000 * i)))"
    by (simp add: env_fail_at_def)
  have b4: "\<forall>i<4. ioctl_res (env_fail_at 4) i = Ioctl_ok (Some (word_of_nat (1000 * i)))"
    by (simp add: env_fail_at_def)
  have c1: "(1::nat) < 4 \<longrightarrow> ioctl_res (env_fail_at 1) 1 = Ioctl_error EIO \<and> EIO \<noteq> 0"
    by (simp add: env_fail_at_def EIO_def)
  have c4: "(4::nat) < 4 \<longrightarrow> ioctl_res (env_fail_at 4) 4 = Ioctl_error EIO \<and> EIO \<noteq> 0"
    by simp
  have p: "\<forall>x. x \<noteq> 0 \<longrightarrow> perror_errno (env_fail_at k) x \<noteq> 0" for k
    by (simp add: env_fail_at_def EINVAL_def)
  have q: "\<forall>x. x \<noteq> 0 \<longrightarrow> close_errno (env_fail_at k) x \<noteq> 0" for k
    by (simp add: env_fail_at_def)
  have r: "close_errno (env_fail_at k) (perror_errno (env_fail_at k) x) = EINVAL" for k x
    by (simp add: env_fail_at_def)
  show ?thesis
    using demo_sequential_short_circuit [OF o a1 b1 c1 p q, of 0 0]
      demo_sequential_short_circuit [OF o a4 b4 c4 p q, of 0 0]
    by (simp add: upt_small channel_ok_def channel_failed_def channel_cmds_def
        channel_labels_def DEVICE_PATH_def EINVAL_def r)
qed

end
